theory Spec2Isabelle
  imports Main
begin

section \<open>The C preprocessor, as far as the longest-symbol sources use it\<close>

text \<open>
  The three programs of \<^verbatim>\<open>lib/\<close> build their symbol names with \<^verbatim>\<open>#define\<close>s:
  object-like and function-like macros and the token-pasting operator \<^verbatim>\<open>##\<close>.
  A macro is kept the way the source writes it: its parameter list (\<open>None\<close> for an
  object-like macro) and its replacement list, a list of preprocessing tokens.
\<close>

datatype token = Ident string | LParen | RParen | Comma | HashHash

type_synonym macro = "string list option \<times> token list"

type_synonym macros = "(string \<times> macro) list"

text \<open>
  The arguments of a function-like macro invocation, read after its opening parenthesis:
  commas at nesting depth 0 separate them, the matching parenthesis ends them. The result is
  the arguments and the tokens after the invocation; \<open>None\<close> is an unterminated invocation.
\<close>

fun collect_args ::
  "nat \<Rightarrow> token list \<Rightarrow> token list list \<Rightarrow> token list \<Rightarrow> (token list list \<times> token list) option"
where
  "collect_args d cur args [] = None"
| "collect_args d cur args (RParen # ts) =
     (case d of
        0 \<Rightarrow> Some (rev (rev cur # args), ts)
      | Suc d' \<Rightarrow> collect_args d' (RParen # cur) args ts)"
| "collect_args d cur args (LParen # ts) = collect_args (Suc d) (LParen # cur) args ts"
| "collect_args d cur args (Comma # ts) =
     (case d of
        0 \<Rightarrow> collect_args 0 [] (rev cur # args) ts
      | Suc d' \<Rightarrow> collect_args d (Comma # cur) args ts)"
| "collect_args d cur args (Ident x # ts) = collect_args d (Ident x # cur) args ts"
| "collect_args d cur args (HashHash # ts) = collect_args d (HashHash # cur) args ts"

text \<open>
  \<^verbatim>\<open>a ## b\<close> glues two identifiers into one. The operator associates to the left; gluing
  anything else is not needed by these sources and is an error here.
\<close>

function paste :: "token list \<Rightarrow> token list option" where
  "paste [] = Some []"
| "paste (t # ts) =
     (case ts of
        HashHash # ts' \<Rightarrow>
          (case (t, ts') of
             (Ident a, Ident b # ts'') \<Rightarrow> paste (Ident (a @ b) # ts'')
           | _ \<Rightarrow> None)
      | _ \<Rightarrow> if t = HashHash then None else map_option (Cons t) (paste ts))"
  by pat_completeness auto
termination
  by (relation "measure length") auto

text \<open>
  Substitution of the arguments into a replacement list (C11 6.10.3.1): a parameter that is
  an operand of \<^verbatim>\<open>##\<close> is replaced by the argument's tokens as written; any other
  parameter is replaced by the argument after its own complete macro expansion, which
  \<open>ex\<close> computes. \<open>prev\<close> tells that the token before was \<^verbatim>\<open>##\<close>.
\<close>

fun subst ::
  "(token list \<Rightarrow> token list option) \<Rightarrow> (string \<times> token list) list \<Rightarrow> bool \<Rightarrow> token list
    \<Rightarrow> token list option"
where
  "subst ex as prev [] = Some []"
| "subst ex as prev (Ident x # ts) =
     (case map_of as x of
        None \<Rightarrow> map_option (Cons (Ident x)) (subst ex as False ts)
      | Some arg \<Rightarrow>
          (case (if prev \<or> (case ts of HashHash # _ \<Rightarrow> True | _ \<Rightarrow> False) then Some arg else ex arg) of
             None \<Rightarrow> None
           | Some arg' \<Rightarrow> map_option (append arg') (subst ex as False ts)))"
| "subst ex as prev (HashHash # ts) = map_option (Cons HashHash) (subst ex as True ts)"
| "subst ex as prev (t # ts) = map_option (Cons t) (subst ex as False ts)"

text \<open>
  Macro expansion with rescanning (C11 6.10.3.4). The replacement of a macro is put back in
  front of the remaining tokens and scanned again. A function-like macro name that is not
  followed by a parenthesis is left alone. The fuel bounds the number of scanning steps, so
  that a macro that expands into itself gives \<open>None\<close> where a C preprocessor would stop
  expanding it: none of the macros below does.
\<close>

fun expand :: "nat \<Rightarrow> macros \<Rightarrow> token list \<Rightarrow> token list option" where
  "expand 0 M ts = None"
| "expand (Suc n) M [] = Some []"
| "expand (Suc n) M (Ident x # ts) =
     (case map_of M x of
        None \<Rightarrow> map_option (Cons (Ident x)) (expand n M ts)
      | Some (None, body) \<Rightarrow>
          (case paste body of None \<Rightarrow> None | Some r \<Rightarrow> expand n M (r @ ts))
      | Some (Some ps, body) \<Rightarrow>
          (case ts of
             LParen # ts' \<Rightarrow>
               (case collect_args 0 [] [] ts' of
                  None \<Rightarrow> None
                | Some (args, rest) \<Rightarrow>
                    if length args \<noteq> length ps then None
                    else (case subst (expand n M) (zip ps args) False body of
                            None \<Rightarrow> None
                          | Some b \<Rightarrow>
                              (case paste b of None \<Rightarrow> None | Some r \<Rightarrow> expand n M (r @ rest))))
           | _ \<Rightarrow> map_option (Cons (Ident x)) (expand n M ts)))"
| "expand (Suc n) M (t # ts) = map_option (Cons t) (expand n M ts)"

definition cpp_fuel :: nat where
  "cpp_fuel = 64"

text \<open>
  A name that stands for one identifier after preprocessing, and \<^verbatim>\<open>__stringify(x)\<close>.
\<close>

definition expand_ident :: "macros \<Rightarrow> string \<Rightarrow> string option" where
  "expand_ident M x =
     (case expand cpp_fuel M [Ident x] of Some [Ident y] \<Rightarrow> Some y | _ \<Rightarrow> None)"

fun spelling :: "token \<Rightarrow> string" where
  "spelling (Ident x) = x"
| "spelling LParen = ''(''"
| "spelling RParen = '')''"
| "spelling Comma = '',''"
| "spelling HashHash = ''##''"

text \<open>
  Modelled from the spec: \<^verbatim>\<open>__stringify\<close> is declared in \<^verbatim>\<open>linux/stringify.h\<close>, which
  is not among the sources. It is the kernel's two-level stringification, which gives the
  name that the harness "looks up by string": the argument is macro-expanded, then spelled as
  a string literal. An argument whose expansion does not end is a build failure; the string
  is empty then.
\<close>

definition stringify :: "macros \<Rightarrow> token list \<Rightarrow> string" where
  "stringify M ts =
     (case expand cpp_fuel M ts of Some r \<Rightarrow> concat (map spelling r) | None \<Rightarrow> [])"

text \<open>\<^verbatim>\<open>sizeof\<close> of a string literal counts the terminating NUL, \<^verbatim>\<open>strlen\<close> does not.\<close>

definition sizeof_literal :: "string \<Rightarrow> nat" where
  "sizeof_literal s = length s + 1"

definition strlen :: "string \<Rightarrow> nat" where
  "strlen s = length (takeWhile (\<lambda>c. c \<noteq> CHR 0x00) s)"

section \<open>The macros of the sources\<close>

text \<open>
  \<^verbatim>\<open>lib/longest_symbol.h\<close>, lines 4 to 16. The translation unit that defines the two
  functions (\<^verbatim>\<open>#include "longest_symbol.h"\<close>, then the definitions and the static assertion)
  and the KUnit file that includes the same header see exactly these macros.
\<close>

definition longest_symbol_h :: macros where
  "longest_symbol_h =
    [(''DI'', Some [''name''], [Ident ''s'', HashHash, Ident ''name'', HashHash, Ident ''name'']),
     (''DDI'', Some [''name''],
        [Ident ''DI'', LParen, Ident ''n'', HashHash, Ident ''name'', HashHash, Ident ''name'', RParen]),
     (''DDDI'', Some [''name''],
        [Ident ''DDI'', LParen, Ident ''n'', HashHash, Ident ''name'', HashHash, Ident ''name'', RParen]),
     (''DDDDI'', Some [''name''],
        [Ident ''DDDI'', LParen, Ident ''n'', HashHash, Ident ''name'', HashHash, Ident ''name'', RParen]),
     (''DDDDDI'', Some [''name''],
        [Ident ''DDDDI'', LParen, Ident ''n'', HashHash, Ident ''name'', HashHash, Ident ''name'', RParen]),
     (''PLUS1'', Some [''name''], [Ident ''name'', HashHash, Ident ''e'']),
     (''LONGEST_SYM_NAME'', None, [Ident ''DDDDDI'', LParen, Ident ''g1h2i3j4k5l6m7n'', RParen]),
     (''LONGEST_SYM_PLUS1'', None, [Ident ''PLUS1'', LParen, Ident ''LONGEST_SYM_NAME'', RParen])]"

text \<open>
  Modelled from the spec: \<^verbatim>\<open>__PASTE\<close> is declared in \<^verbatim>\<open>linux/compiler_types.h\<close>,
  which is not among the sources. It is the kernel's two-level paste,
  \<^verbatim>\<open>#define ___PASTE(a,b) a##b\<close> and \<^verbatim>\<open>#define __PASTE(a,b) ___PASTE(a,b)\<close>: its
  arguments are macro-expanded before they are glued.
\<close>

definition compiler_types_h :: macros where
  "compiler_types_h =
    [(''___PASTE'', Some [''a'', ''b''], [Ident ''a'', HashHash, Ident ''b'']),
     (''__PASTE'', Some [''a'', ''b''], [Ident ''___PASTE'', LParen, Ident ''a'', Comma, Ident ''b'', RParen])]"

text \<open>\<^verbatim>\<open>lib/longest_symbol_kunit.c\<close>, lines 15 to 27, after its includes.\<close>

definition longest_symbol_kunit_c :: macros where
  "longest_symbol_kunit_c = compiler_types_h @
    [(''DI'', Some [''name''], [Ident ''s'', HashHash, Ident ''name'', HashHash, Ident ''name'']),
     (''DDI'', Some [''name''],
        [Ident ''DI'', LParen, Ident ''n'', HashHash, Ident ''name'', HashHash, Ident ''name'', RParen]),
     (''DDDI'', Some [''name''],
        [Ident ''DDI'', LParen, Ident ''n'', HashHash, Ident ''name'', HashHash, Ident ''name'', RParen]),
     (''DDDDI'', Some [''name''],
        [Ident ''DDDI'', LParen, Ident ''n'', HashHash, Ident ''name'', HashHash, Ident ''name'', RParen]),
     (''DDDDDI'', Some [''name''],
        [Ident ''DDDDI'', LParen, Ident ''n'', HashHash, Ident ''name'', HashHash, Ident ''name'', RParen]),
     (''PLUS1'', Some [''name''], [Ident ''__PASTE'', LParen, Ident ''name'', Comma, Ident ''e'', RParen]),
     (''LONGEST_SYM_NAME'', None, [Ident ''DDDDDI'', LParen, Ident ''g1h2i3j4k5l6m7n'', RParen]),
     (''LONGEST_SYM_NAME_PLUS1'', None, [Ident ''PLUS1'', LParen, Ident ''LONGEST_SYM_NAME'', RParen])]"

text \<open>\<^verbatim>\<open>lib/test_longest_symbol.c\<close>, line 13.\<close>

definition test_longest_symbol_c :: macros where
  "test_longest_symbol_c =
    [(''LONGEST_SYMBOL'', None,
      [Ident ''start_of_the_longest_symbol_possible__123456789_123456789_123456789_123456789_123456789_123__end_of_the_longest_symbol_possible''])]"

text \<open>
  The same macros as functions on spellings: what each invocation puts in place of itself once
  its argument is a single identifier.
\<close>

definition DI :: "string \<Rightarrow> string" where
  "DI name = ''s'' @ name @ name"

definition DDI :: "string \<Rightarrow> string" where
  "DDI name = DI (''n'' @ name @ name)"

definition DDDI :: "string \<Rightarrow> string" where
  "DDDI name = DDI (''n'' @ name @ name)"

definition DDDDI :: "string \<Rightarrow> string" where
  "DDDDI name = DDDI (''n'' @ name @ name)"

definition DDDDDI :: "string \<Rightarrow> string" where
  "DDDDDI name = DDDDI (''n'' @ name @ name)"

definition LONGEST_SYM_NAME :: string where
  "LONGEST_SYM_NAME = DDDDDI ''g1h2i3j4k5l6m7n''"

definition LONGEST_SYMBOL :: string where
  "LONGEST_SYMBOL =
    ''start_of_the_longest_symbol_possible__123456789_123456789_123456789_123456789_123456789_123__end_of_the_longest_symbol_possible''"

text \<open>
  Modelled from the spec: \<^verbatim>\<open>KSYM_NAME_LEN\<close> is declared in \<^verbatim>\<open>linux/kallsyms.h\<close>,
  which is not among the sources. The spec calls it the maximum permitted length of a kernel
  symbol name, and the header's comments give 511 characters for the longest name, so the
  constant, which counts the terminating NUL, is 512.
\<close>

definition KSYM_NAME_LEN :: nat where
  "KSYM_NAME_LEN = 512"

text \<open>
  The static assertions, as conditions on the value of \<^verbatim>\<open>KSYM_NAME_LEN\<close>:
  \<^verbatim>\<open>lib/longest_symbol_kunit.c\<close> line 39, the same assertion in the translation unit that
  includes the header, and \<^verbatim>\<open>lib/test_longest_symbol.c\<close> line 24.
\<close>

definition static_assert_longest_symbol_kunit_c :: "nat \<Rightarrow> bool" where
  "static_assert_longest_symbol_kunit_c ksym_name_len =
     (sizeof_literal (stringify longest_symbol_kunit_c [Ident ''LONGEST_SYM_NAME'']) = ksym_name_len)"

definition static_assert_longest_symbol_h :: "nat \<Rightarrow> bool" where
  "static_assert_longest_symbol_h ksym_name_len =
     (sizeof_literal (stringify longest_symbol_h [Ident ''LONGEST_SYM_NAME'']) = ksym_name_len)"

definition static_assert_test_longest_symbol_c :: "nat \<Rightarrow> bool" where
  "static_assert_test_longest_symbol_c ksym_name_len =
     (ksym_name_len = strlen (stringify test_longest_symbol_c [Ident ''LONGEST_SYMBOL'']))"

section \<open>The generated functions\<close>

text \<open>
  \<^verbatim>\<open>noinline int LONGEST_SYM_NAME(void) { return 424242; }\<close> and its sibling, in
  \<^verbatim>\<open>lib/longest_symbol_kunit.c\<close> lines 29 to 37 and, word for word, in the translation unit
  that includes \<^verbatim>\<open>longest_symbol.h\<close>. A C function may read and write the whole machine
  state, so each is a function from a state to its result and the state it leaves.
\<close>

definition LONGEST_SYM_NAME_func :: "'s \<Rightarrow> int \<times> 's" where
  "LONGEST_SYM_NAME_func s = (424242, s)"

definition LONGEST_SYM_NAME_PLUS1_func :: "'s \<Rightarrow> int \<times> 's" where
  "LONGEST_SYM_NAME_PLUS1_func s = (434343, s)"

text \<open>
  The symbols a translation unit with the macros \<open>M\<close> defines: the identifier that the
  preprocessor leaves in each function definition, with the value the function returns.
\<close>

definition defined_functions :: "macros \<Rightarrow> (string \<times> int) list" where
  "defined_functions M =
     [(stringify M [Ident ''LONGEST_SYM_NAME''], fst (LONGEST_SYM_NAME_func ())),
      (stringify M [Ident ''LONGEST_SYM_NAME_PLUS1''], fst (LONGEST_SYM_NAME_PLUS1_func ()))]"

section \<open>The kernel services the tests call\<close>

text \<open>
  Modelled from the spec: \<^verbatim>\<open>register_kprobe\<close>, \<^verbatim>\<open>unregister_kprobe\<close>,
  \<^verbatim>\<open>kallsyms_lookup_name\<close>, \<^verbatim>\<open>pr_info\<close> and the KUnit and kselftest macros are kernel
  code that is not among the sources. The spec says of them that the symbol is "resolvable
  through the kernel's symbol table (kallsyms) via a kprobe-based address lookup" and that
  the harness "looks up the generated symbol name by string" and "asserts the returned
  function pointer behaves as expected". The kernel below is what the tests can observe of
  them:
  \<^item> \<open>register_result\<close> is what the successive calls of \<^verbatim>\<open>register_kprobe\<close> return
    (the \<open>i\<close>-th call returns \<open>register_result i\<close>; negative is failure), and
    \<open>register_calls\<close> counts the calls made so far;
  \<^item> \<open>kprobes\<close> are the probes registered at the moment;
  \<^item> \<open>symtab\<close> is the symbol table that \<^verbatim>\<open>kallsyms_lookup_name\<close> searches, and
    \<open>lookups\<close> the names it was asked for, in order;
  \<^item> \<open>ktext\<close> gives, for the address of a function \<^verbatim>\<open>int f(void)\<close>, the value
    a call of it returns; at any other address, and at 0, a call faults;
  \<^item> \<open>dmesg\<close> is the kernel log (without the \<^verbatim>\<open>KBUILD_MODNAME\<close> prefix of
    \<^verbatim>\<open>pr_fmt\<close>, which the build supplies).
\<close>

record kprobe =
  symbol_name :: string
  addr :: nat

record kernel =
  register_result :: "nat \<Rightarrow> int"
  register_calls :: nat
  kprobes :: "kprobe list"
  symtab :: "(string \<times> nat) list"
  lookups :: "string list"
  ktext :: "(nat \<times> int) list"
  dmesg :: "string list"

definition pr_info :: "string \<Rightarrow> kernel \<Rightarrow> kernel" where
  "pr_info msg k = k\<lparr>dmesg := dmesg k @ [msg]\<rparr>"

text \<open>
  Modelled from the spec: a successful \<^verbatim>\<open>register_kprobe\<close> resolves the probe's symbol,
  stores its address in the probe and keeps the probe registered; a failed one changes
  neither.
\<close>

definition symbol_address :: "kernel \<Rightarrow> string \<Rightarrow> nat" where
  "symbol_address k name = (case map_of (symtab k) name of Some a \<Rightarrow> a | None \<Rightarrow> 0)"

definition register_kprobe :: "kprobe \<Rightarrow> kernel \<Rightarrow> int \<times> kprobe \<times> kernel" where
  "register_kprobe kp k =
     (let r = register_result k (register_calls k);
          k1 = k\<lparr>register_calls := Suc (register_calls k)\<rparr>
      in if r < 0 then (r, kp, k1)
         else (let kp1 = kp\<lparr>addr := symbol_address k (symbol_name kp)\<rparr>
               in (r, kp1, k1\<lparr>kprobes := kp1 # kprobes k1\<rparr>)))"

definition unregister_kprobe :: "kprobe \<Rightarrow> kernel \<Rightarrow> kernel" where
  "unregister_kprobe kp k = k\<lparr>kprobes := remove1 kp (kprobes k)\<rparr>"

text \<open>
  Modelled from the spec: the tests cast the address that a successful registration on
  \<^verbatim>\<open>"kallsyms_lookup_name"\<close> left in the probe to a function pointer and call it; that call
  is a call of \<^verbatim>\<open>kallsyms_lookup_name\<close>, which returns the address of the named symbol, or
  0 when the table has no such symbol.
\<close>

definition kallsyms_lookup_name :: "nat \<Rightarrow> string \<Rightarrow> kernel \<Rightarrow> nat \<times> kernel" where
  "kallsyms_lookup_name fn name k = (symbol_address k name, k\<lparr>lookups := lookups k @ [name]\<rparr>)"

text \<open>A call through a pointer to \<^verbatim>\<open>int (*)(void)\<close>: \<open>None\<close> is a fault.\<close>

definition call_fn :: "kernel \<Rightarrow> nat \<Rightarrow> int option" where
  "call_fn k p = (if p = 0 then None else map_of (ktext k) p)"

text \<open>
  Modelled from the spec: \<^verbatim>\<open>register_kprobe\<close> is not among the sources. Of the kernel's
  function it is taken that a registration it has refused is refused again when it is repeated
  at once on the same \<^verbatim>\<open>struct kprobe\<close>: either resolving the symbol failed, and it fails the
  same way again, or the failure came after the resolved address was stored in the probe, and
  a probe that carries both a symbol name and an address is refused as invalid; a kernel built
  without kprobes refuses every call. \<open>refusal_persists k\<close> says so of the next two calls on
  the kernel \<open>k\<close>.
\<close>

definition refusal_persists :: "kernel \<Rightarrow> bool" where
  "refusal_persists k =
     (if register_result k (register_calls k) < 0
      then register_result k (Suc (register_calls k)) < 0
      else True)"

text \<open>
  Modelled from the spec: the KUnit context of a running test case. An expectation that
  fails records a failure and the case goes on; an assertion that fails records a failure
  and the case is aborted; \<^verbatim>\<open>KUNIT_FAIL\<close> always records a failure; \<^verbatim>\<open>kunit_warn\<close> writes
  to the test log.
\<close>

record kunit =
  failures :: "string list"
  test_log :: "string list"

datatype outcome = Returned | Aborted | Faulted

definition kunit_warn :: "string \<Rightarrow> kunit \<Rightarrow> kunit" where
  "kunit_warn msg test = test\<lparr>test_log := test_log test @ [msg]\<rparr>"

definition KUNIT_FAIL :: "string \<Rightarrow> kunit \<Rightarrow> kunit" where
  "KUNIT_FAIL msg test = test\<lparr>failures := failures test @ [msg]\<rparr>"

definition KUNIT_EXPECT_EQ :: "'a \<Rightarrow> 'a \<Rightarrow> kunit \<Rightarrow> kunit" where
  "KUNIT_EXPECT_EQ left right test =
     (if left = right then test else test\<lparr>failures := failures test @ [''KUNIT_EXPECT_EQ'']\<rparr>)"

definition KUNIT_ASSERT_TRUE :: "bool \<Rightarrow> kunit \<Rightarrow> bool \<times> kunit" where
  "KUNIT_ASSERT_TRUE cond test =
     (if cond then (True, test)
      else (False, test\<lparr>failures := failures test @ [''KUNIT_ASSERT_TRUE'']\<rparr>))"

section \<open>The KUnit test cases\<close>

text \<open>
  A test case takes the KUnit context and the kernel and gives how it ended and what it left
  of both. Messages are given without their final newline. The local \<^verbatim>\<open>struct kprobe kp\<close>
  starts with the symbol name set and every other field zero.

  \<^verbatim>\<open>test_longest_symbol\<close> and \<^verbatim>\<open>test_longest_symbol_plus1\<close> are the same in
  \<^verbatim>\<open>lib/longest_symbol_kunit.c\<close> (lines 44 and 75) and in the KUnit file that includes the
  header (lines 15 and 46).
\<close>

definition test_longest_symbol :: "kunit \<Rightarrow> kernel \<Rightarrow> outcome \<times> kunit \<times> kernel" where
  "test_longest_symbol test k =
     (let (v, k) = LONGEST_SYM_NAME_func k
      in (Returned, KUNIT_EXPECT_EQ 424242 v test, k))"

definition test_longest_symbol_plus1 :: "kunit \<Rightarrow> kernel \<Rightarrow> outcome \<times> kunit \<times> kernel" where
  "test_longest_symbol_plus1 test k =
     (let (v, k) = LONGEST_SYM_NAME_PLUS1_func k
      in (Returned, KUNIT_EXPECT_EQ 434343 v test, k))"

text \<open>
  \<^verbatim>\<open>test_longest_symbol_kallsyms\<close>: \<^verbatim>\<open>lib/longest_symbol_kunit.c\<close> lines 49 to 73 and,
  with the same statements (\<^verbatim>\<open>__func__\<close> written out in the first message), lines 20 to 44
  of the KUnit file that includes the header. \<open>M\<close> are the macros of the file, which decide
  what \<^verbatim>\<open>__stringify(LONGEST_SYM_NAME)\<close> is.
\<close>

definition test_longest_symbol_kallsyms ::
  "macros \<Rightarrow> kunit \<Rightarrow> kernel \<Rightarrow> outcome \<times> kunit \<times> kernel"
where
  "test_longest_symbol_kallsyms M test k =
     (let kp = \<lparr>symbol_name = ''kallsyms_lookup_name'', addr = 0\<rparr>;
          (r, kp, k) = register_kprobe kp k
      in if r < 0 then
           (let k = pr_info ''test_longest_symbol_kallsyms: kprobe not registered'' k;
                test = kunit_warn ''test_longest_symbol kallsyms: kprobe not registered'' test;
                (r2, kp, k) = register_kprobe kp k;
                (ok, test) = KUNIT_ASSERT_TRUE (r2 < 0) test
            in if \<not> ok then (Aborted, test, k)
               else (Returned,
                     KUNIT_FAIL ''test_longest_symbol kallsysms: kprobe not registered'' test, k))
         else
           (let test = kunit_warn ''test_longest_symbol kallsyms: kprobe registered'' test;
                kallsyms_lookup_name_ptr = addr kp;
                k = unregister_kprobe kp k;
                (longest_sym, k) =
                   kallsyms_lookup_name kallsyms_lookup_name_ptr
                     (stringify M [Ident ''LONGEST_SYM_NAME'']) k
            in case call_fn k longest_sym of
                 None \<Rightarrow> (Faulted, test, k)
               | Some v \<Rightarrow> (Returned, KUNIT_EXPECT_EQ 424242 v test, k)))"

text \<open>
  \<^verbatim>\<open>test_longest_symbol_plus1_kallsyms\<close> of \<^verbatim>\<open>lib/longest_symbol_kunit.c\<close>, lines 80 to
  103: the pointer that the lookup returns is compared with \<^verbatim>\<open>NULL\<close> and not called.
\<close>

definition test_longest_symbol_plus1_kallsyms_kunit_c ::
  "kunit \<Rightarrow> kernel \<Rightarrow> outcome \<times> kunit \<times> kernel"
where
  "test_longest_symbol_plus1_kallsyms_kunit_c test k =
     (let kp = \<lparr>symbol_name = ''kallsyms_lookup_name'', addr = 0\<rparr>;
          (r, kp, k) = register_kprobe kp k
      in if r < 0 then
           (let k = pr_info ''test_longest_symbol_plus1_kallsyms: kprobe not registered'' k;
                (r2, kp, k) = register_kprobe kp k;
                (ok, test) = KUNIT_ASSERT_TRUE (r2 < 0) test
            in if \<not> ok then (Aborted, test, k)
               else (Returned,
                     KUNIT_FAIL ''test_longest_symbol kallsysms: kprobe not registered'' test, k))
         else
           (let test = kunit_warn ''test_longest_symbol_plus1 kallsyms: kprobe registered'' test;
                kallsyms_lookup_name_ptr = addr kp;
                k = unregister_kprobe kp k;
                (longest_sym_plus1, k) =
                   kallsyms_lookup_name kallsyms_lookup_name_ptr
                     (stringify longest_symbol_kunit_c [Ident ''LONGEST_SYM_NAME_PLUS1'']) k
            in (Returned, KUNIT_EXPECT_EQ 0 longest_sym_plus1 test, k)))"

text \<open>
  \<^verbatim>\<open>test_longest_symbol_plus1_kallsyms\<close> of the KUnit file that includes the header, lines
  51 to 74: the pointer is called and the result compared with 434343.
\<close>

definition test_longest_symbol_plus1_kallsyms_h ::
  "kunit \<Rightarrow> kernel \<Rightarrow> outcome \<times> kunit \<times> kernel"
where
  "test_longest_symbol_plus1_kallsyms_h test k =
     (let kp = \<lparr>symbol_name = ''kallsyms_lookup_name'', addr = 0\<rparr>;
          (r, kp, k) = register_kprobe kp k
      in if r < 0 then
           (let k = pr_info ''test_longest_symbol_plus1_kallsyms: kprobe not registered'' k;
                (r2, kp, k) = register_kprobe kp k;
                (ok, test) = KUNIT_ASSERT_TRUE (r2 < 0) test
            in if \<not> ok then (Aborted, test, k)
               else (Returned,
                     KUNIT_FAIL ''test_longest_symbol kallsysms: kprobe not registered'' test, k))
         else
           (let kallsyms_lookup_name_ptr = addr kp;
                k = unregister_kprobe kp k;
                (longest_sym_plus1, k) =
                   kallsyms_lookup_name kallsyms_lookup_name_ptr
                     (stringify longest_symbol_h [Ident ''LONGEST_SYM_NAME_PLUS1'']) k
            in case call_fn k longest_sym_plus1 of
                 None \<Rightarrow> (Faulted, test, k)
               | Some v \<Rightarrow> (Returned, KUNIT_EXPECT_EQ 434343 v test, k)))"

section \<open>The selftest module\<close>

text \<open>\<^verbatim>\<open>check_longest_symbol_exported\<close>, \<^verbatim>\<open>lib/test_longest_symbol.c\<close> lines 27 to 51.\<close>

definition check_longest_symbol_exported :: "kernel \<Rightarrow> int \<times> kernel" where
  "check_longest_symbol_exported k =
     (let kp = \<lparr>symbol_name = ''kallsyms_lookup_name'', addr = 0\<rparr>;
          (r, kp, k) = register_kprobe kp k
      in if r < 0 then (1, pr_info ''test_longest_symbol: kprobe not registered'' k)
         else
           (let kallsyms_lookup_name_ptr = addr kp;
                k = unregister_kprobe kp k;
                (found, k) =
                   kallsyms_lookup_name kallsyms_lookup_name_ptr
                     (stringify test_longest_symbol_c [Ident ''LONGEST_SYMBOL'']) k
            in if found \<noteq> 0 then
                 (0, pr_info (''test_longest_symbol: symbol found: '' @
                        stringify test_longest_symbol_c [Ident ''LONGEST_SYMBOL'']) k)
               else (1, pr_info ''test_longest_symbol: longest_symbol not found'' k)))"

text \<open>
  Modelled from the spec: \<^verbatim>\<open>KSTM_MODULE_GLOBALS\<close> and \<^verbatim>\<open>KSTM_CHECK_ZERO\<close> come from
  \<^verbatim>\<open>tools/testing/selftests/kselftest/module.h\<close>, which is not among the sources. The
  globals count the checks run and the checks failed; \<^verbatim>\<open>KSTM_CHECK_ZERO(x)\<close> counts one
  more check and, when \<open>x\<close> is not zero, reports it and counts one more failure.
\<close>

record kstm =
  total_tests :: nat
  failed_tests :: nat

definition KSTM_CHECK_ZERO :: "int \<Rightarrow> kstm \<Rightarrow> kernel \<Rightarrow> kstm \<times> kernel" where
  "KSTM_CHECK_ZERO x g k =
     (let g = g\<lparr>total_tests := total_tests g + 1\<rparr>
      in if x \<noteq> 0 then (g\<lparr>failed_tests := failed_tests g + 1\<rparr>, pr_info ''TC failed'' k)
         else (g, k))"

text \<open>
  \<^verbatim>\<open>selftest\<close>, lines 53 to 62; \<open>config_kprobes\<close> tells whether \<^verbatim>\<open>CONFIG_KPROBES\<close> is
  defined.
\<close>

definition selftest :: "bool \<Rightarrow> kstm \<Rightarrow> kernel \<Rightarrow> kstm \<times> kernel" where
  "selftest config_kprobes g k =
     (let k = pr_info ''test_longest_symbol loaded'' k
      in if config_kprobes then
           (let (x, k) = check_longest_symbol_exported k in KSTM_CHECK_ZERO x g k)
         else
           (g, pr_info ''To check the longest symbol exported it is needed to have defined CONFIG_KPROBES'' k))"

section \<open>Kernels to run the tests on\<close>

text \<open>
  A freshly booted kernel: what \<^verbatim>\<open>register_kprobe\<close> will return, the symbol table and
  the functions in memory; nothing registered, looked up or logged yet.
\<close>

definition boot :: "(nat \<Rightarrow> int) \<Rightarrow> (string \<times> nat) list \<Rightarrow> (nat \<times> int) list \<Rightarrow> kernel" where
  "boot rr st tx =
     \<lparr>register_result = rr, register_calls = 0, kprobes = [], symtab = st, lookups = [],
      ktext = tx, dmesg = []\<rparr>"

definition kunit_init :: kunit where
  "kunit_init = \<lparr>failures = [], test_log = []\<rparr>"

definition kstm_init :: kstm where
  "kstm_init = \<lparr>total_tests = 0, failed_tests = 0\<rparr>"

text \<open>
  The kernel built with \<^verbatim>\<open>lib/longest_symbol_kunit.c\<close>: both functions are in memory, and
  the symbol table has the one whose name fits.
\<close>

definition kernel_kunit_c :: kernel where
  "kernel_kunit_c =
     boot (\<lambda>i. 0)
       [(LONGEST_SYM_NAME, 8192), (''kallsyms_lookup_name'', 4096)]
       [(8192, 424242), (8208, 434343)]"

text \<open>
  The kernel built with the translation unit that includes \<^verbatim>\<open>longest_symbol.h\<close>: both
  functions are in memory and in the symbol table, under the names that unit gives them.
\<close>

definition kernel_longest_symbol_h :: kernel where
  "kernel_longest_symbol_h =
     boot (\<lambda>i. 0)
       [(LONGEST_SYM_NAME, 8192), (''LONGEST_SYM_NAME_PLUS1'', 8208),
        (''kallsyms_lookup_name'', 4096)]
       [(8192, 424242), (8208, 434343)]"

text \<open>A kernel whose symbol table resolves both spellings of the second function.\<close>

definition kernel_plus1_resolved :: kernel where
  "kernel_plus1_resolved =
     boot (\<lambda>i. 0)
       [(''LONGEST_SYM_NAME_PLUS1'', 8208), (LONGEST_SYM_NAME @ ''e'', 8208),
        (''kallsyms_lookup_name'', 4096)]
       [(8208, 434343)]"

text \<open>A kernel whose symbol table has none of the generated functions.\<close>

definition kernel_unresolved :: kernel where
  "kernel_unresolved = boot (\<lambda>i. 0) [(''kallsyms_lookup_name'', 4096)] [(8192, 424242), (8208, 434343)]"

text \<open>A kernel that refuses every kprobe (\<^verbatim>\<open>-EOPNOTSUPP\<close>).\<close>

definition kernel_no_kprobes :: kernel where
  "kernel_no_kprobes = boot (\<lambda>i. - 95) [(''kallsyms_lookup_name'', 4096)] []"

text \<open>
  A kernel whose first \<^verbatim>\<open>register_kprobe\<close> fails (\<^verbatim>\<open>-ENOMEM\<close>) and whose later ones
  succeed.
\<close>

definition kernel_retry :: kernel where
  "kernel_retry =
     boot (\<lambda>i. if i = 0 then - 12 else 0) [(''kallsyms_lookup_name'', 4096)] []"

text \<open>The kernel with the selftest module loaded: its exported symbol is in the table.\<close>

definition kernel_selftest :: kernel where
  "kernel_selftest = boot (\<lambda>i. 0) [(LONGEST_SYMBOL, 12288), (''kallsyms_lookup_name'', 4096)] []"

section \<open>Facts about the preprocessor\<close>

lemma expand_Nil: "0 < n \<Longrightarrow> expand n M [] = Some []"
  by (cases n) simp_all

lemma h_lookup:
  "map_of longest_symbol_h ''DI'' = Some (Some [''name''], [Ident ''s'', HashHash, Ident ''name'', HashHash, Ident ''name''])"
  "map_of longest_symbol_h ''DDI'' = Some (Some [''name''], [Ident ''DI'', LParen, Ident ''n'', HashHash, Ident ''name'', HashHash, Ident ''name'', RParen])"
  "map_of longest_symbol_h ''DDDI'' = Some (Some [''name''], [Ident ''DDI'', LParen, Ident ''n'', HashHash, Ident ''name'', HashHash, Ident ''name'', RParen])"
  "map_of longest_symbol_h ''DDDDI'' = Some (Some [''name''], [Ident ''DDDI'', LParen, Ident ''n'', HashHash, Ident ''name'', HashHash, Ident ''name'', RParen])"
  "map_of longest_symbol_h ''DDDDDI'' = Some (Some [''name''], [Ident ''DDDDI'', LParen, Ident ''n'', HashHash, Ident ''name'', HashHash, Ident ''name'', RParen])"
  "map_of longest_symbol_h (CHR ''s'' # x) = None"
  by (simp_all add: longest_symbol_h_def)

lemma kunit_c_lookup:
  "map_of longest_symbol_kunit_c ''DI'' = Some (Some [''name''], [Ident ''s'', HashHash, Ident ''name'', HashHash, Ident ''name''])"
  "map_of longest_symbol_kunit_c ''DDI'' = Some (Some [''name''], [Ident ''DI'', LParen, Ident ''n'', HashHash, Ident ''name'', HashHash, Ident ''name'', RParen])"
  "map_of longest_symbol_kunit_c ''DDDI'' = Some (Some [''name''], [Ident ''DDI'', LParen, Ident ''n'', HashHash, Ident ''name'', HashHash, Ident ''name'', RParen])"
  "map_of longest_symbol_kunit_c ''DDDDI'' = Some (Some [''name''], [Ident ''DDDI'', LParen, Ident ''n'', HashHash, Ident ''name'', HashHash, Ident ''name'', RParen])"
  "map_of longest_symbol_kunit_c ''DDDDDI'' = Some (Some [''name''], [Ident ''DDDDI'', LParen, Ident ''n'', HashHash, Ident ''name'', HashHash, Ident ''name'', RParen])"
  "map_of longest_symbol_kunit_c (CHR ''s'' # x) = None"
  by (simp_all add: longest_symbol_kunit_c_def compiler_types_h_def)

text \<open>One scanning step of each macro of the chain, for any argument that is one identifier.\<close>

lemma chain_step:
  assumes "M = longest_symbol_h \<or> M = longest_symbol_kunit_c"
  shows
  "expand (Suc m) M (Ident ''DI'' # LParen # Ident name # RParen # ts) = expand m M (Ident (DI name) # ts)"
  "expand (Suc m) M (Ident ''DDI'' # LParen # Ident name # RParen # ts) = expand m M (Ident ''DI'' # LParen # Ident (''n'' @ name @ name) # RParen # ts)"
  "expand (Suc m) M (Ident ''DDDI'' # LParen # Ident name # RParen # ts) = expand m M (Ident ''DDI'' # LParen # Ident (''n'' @ name @ name) # RParen # ts)"
  "expand (Suc m) M (Ident ''DDDDI'' # LParen # Ident name # RParen # ts) = expand m M (Ident ''DDDI'' # LParen # Ident (''n'' @ name @ name) # RParen # ts)"
  "expand (Suc m) M (Ident ''DDDDDI'' # LParen # Ident name # RParen # ts) = expand m M (Ident ''DDDDI'' # LParen # Ident (''n'' @ name @ name) # RParen # ts)"
  "expand (Suc m) M (Ident (DI name) # ts) = map_option (Cons (Ident (DI name))) (expand m M ts)"
  using assms by (auto simp add: h_lookup kunit_c_lookup DI_def)

lemma chain_fuel:
  "cpp_fuel = Suc (Suc (Suc (Suc (Suc (Suc (Suc (cpp_fuel - 7)))))))" "0 < cpp_fuel - 7"
  by (simp_all add: cpp_fuel_def)

lemma chain_expand:
  assumes M: "M = longest_symbol_h \<or> M = longest_symbol_kunit_c"
  shows
  "expand cpp_fuel M [Ident ''DI'', LParen, Ident name, RParen] = Some [Ident (DI name)]"
  "expand cpp_fuel M [Ident ''DDI'', LParen, Ident name, RParen] = Some [Ident (DDI name)]"
  "expand cpp_fuel M [Ident ''DDDI'', LParen, Ident name, RParen] = Some [Ident (DDDI name)]"
  "expand cpp_fuel M [Ident ''DDDDI'', LParen, Ident name, RParen] = Some [Ident (DDDDI name)]"
  "expand cpp_fuel M [Ident ''DDDDDI'', LParen, Ident name, RParen] = Some [Ident (DDDDDI name)]"
  by (subst chain_fuel(1), simp only: chain_step [OF M] DDI_def DDDI_def DDDDI_def DDDDDI_def, simp add: expand_Nil chain_fuel(2))+

lemma length_chain:
  "length (DI name) = 2 * length name + 1"
  "length (DDI name) = 2 * (2 * length name + 1) + 1"
  "length (DDDI name) = 2 * (2 * (2 * length name + 1) + 1) + 1"
  "length (DDDDI name) = 2 * (2 * (2 * (2 * length name + 1) + 1) + 1) + 1"
  "length (DDDDDI name) = 2 * (2 * (2 * (2 * (2 * length name + 1) + 1) + 1) + 1) + 1"
  by (simp_all add: DI_def DDI_def DDDI_def DDDDI_def DDDDDI_def)

lemma length_LONGEST_SYM_NAME: "length LONGEST_SYM_NAME = 511"
  by (simp add: LONGEST_SYM_NAME_def length_chain)

lemma stringify_LONGEST_SYM_NAME:
  "stringify longest_symbol_h [Ident ''LONGEST_SYM_NAME''] = LONGEST_SYM_NAME"
  "stringify longest_symbol_kunit_c [Ident ''LONGEST_SYM_NAME''] = LONGEST_SYM_NAME"
  by code_simp+

lemma stringify_PLUS1:
  "stringify longest_symbol_h [Ident ''LONGEST_SYM_NAME_PLUS1''] = ''LONGEST_SYM_NAME_PLUS1''"
  "stringify longest_symbol_kunit_c [Ident ''LONGEST_SYM_NAME_PLUS1''] = LONGEST_SYM_NAME @ ''e''"
  by code_simp+

lemma stringify_LONGEST_SYMBOL:
  "stringify test_longest_symbol_c [Ident ''LONGEST_SYMBOL''] = LONGEST_SYMBOL"
  by code_simp

lemma length_LONGEST_SYMBOL: "length LONGEST_SYMBOL = 127" "strlen LONGEST_SYMBOL = 127"
  by (simp_all add: LONGEST_SYMBOL_def strlen_def)

lemma strlen_LONGEST_SYM_NAME: "strlen LONGEST_SYM_NAME = 511"
  by code_simp

section \<open>The identifiers the macros build\<close>

text \<open>
  Claim C1. The macro chain \<^verbatim>\<open>DDDDDI\<close> applied to the seed \<^verbatim>\<open>g1h2i3j4k5l6m7n\<close> gives one
  identifier, the one \<^verbatim>\<open>LONGEST_SYM_NAME\<close> stands for in the header and in the KUnit file,
  and it has exactly 511 characters; so \<^verbatim>\<open>sizeof(__stringify(LONGEST_SYM_NAME))\<close>, which
  counts the NUL, is \<^verbatim>\<open>KSYM_NAME_LEN\<close> (512), and both static assertions hold.
\<close>

theorem longest_sym_name_has_511_characters:
  "expand cpp_fuel longest_symbol_h [Ident ''DDDDDI'', LParen, Ident ''g1h2i3j4k5l6m7n'', RParen] = Some [Ident LONGEST_SYM_NAME]
   \<and> expand_ident longest_symbol_h ''LONGEST_SYM_NAME'' = Some LONGEST_SYM_NAME
   \<and> expand_ident longest_symbol_kunit_c ''LONGEST_SYM_NAME'' = Some LONGEST_SYM_NAME
   \<and> length LONGEST_SYM_NAME = 511
   \<and> sizeof_literal (stringify longest_symbol_kunit_c [Ident ''LONGEST_SYM_NAME'']) = KSYM_NAME_LEN
   \<and> sizeof_literal (stringify longest_symbol_h [Ident ''LONGEST_SYM_NAME'']) = KSYM_NAME_LEN
   \<and> static_assert_longest_symbol_kunit_c KSYM_NAME_LEN
   \<and> static_assert_longest_symbol_h KSYM_NAME_LEN"
proof -
  have a: "expand cpp_fuel longest_symbol_h [Ident ''DDDDDI'', LParen, Ident ''g1h2i3j4k5l6m7n'', RParen] = Some [Ident LONGEST_SYM_NAME]"
    unfolding LONGEST_SYM_NAME_def by (rule chain_expand) simp
  have b: "expand_ident longest_symbol_h ''LONGEST_SYM_NAME'' = Some LONGEST_SYM_NAME"
    by code_simp
  have c: "expand_ident longest_symbol_kunit_c ''LONGEST_SYM_NAME'' = Some LONGEST_SYM_NAME"
    by code_simp
  show ?thesis
    using a b c
    by (simp add: length_LONGEST_SYM_NAME stringify_LONGEST_SYM_NAME sizeof_literal_def KSYM_NAME_LEN_def
      static_assert_longest_symbol_kunit_c_def static_assert_longest_symbol_h_def)
qed

text \<open>
  Claim C6. For every identifier \<open>name\<close>, in the header and in the KUnit file alike,
  \<^verbatim>\<open>DI(name)\<close> expands to one identifier of \<open>2 * length name + 1\<close> characters, every further
  level of the chain doubles the length and adds one once more, \<^verbatim>\<open>DDDDDI\<close> maps a seed of
  \<open>n\<close> characters to an identifier of \<open>32 * n + 31\<close>, and the seed of 15 characters to one
  of 511.
\<close>

theorem paste_chain_doubles_plus_one:
  "expand cpp_fuel longest_symbol_h [Ident ''DI'', LParen, Ident name, RParen] = Some [Ident (DI name)]
   \<and> expand cpp_fuel longest_symbol_h [Ident ''DDI'', LParen, Ident name, RParen] = Some [Ident (DDI name)]
   \<and> expand cpp_fuel longest_symbol_h [Ident ''DDDI'', LParen, Ident name, RParen] = Some [Ident (DDDI name)]
   \<and> expand cpp_fuel longest_symbol_h [Ident ''DDDDI'', LParen, Ident name, RParen] = Some [Ident (DDDDI name)]
   \<and> expand cpp_fuel longest_symbol_h [Ident ''DDDDDI'', LParen, Ident name, RParen] = Some [Ident (DDDDDI name)]
   \<and> expand cpp_fuel longest_symbol_kunit_c [Ident ''DI'', LParen, Ident name, RParen] = Some [Ident (DI name)]
   \<and> expand cpp_fuel longest_symbol_kunit_c [Ident ''DDI'', LParen, Ident name, RParen] = Some [Ident (DDI name)]
   \<and> expand cpp_fuel longest_symbol_kunit_c [Ident ''DDDI'', LParen, Ident name, RParen] = Some [Ident (DDDI name)]
   \<and> expand cpp_fuel longest_symbol_kunit_c [Ident ''DDDDI'', LParen, Ident name, RParen] = Some [Ident (DDDDI name)]
   \<and> expand cpp_fuel longest_symbol_kunit_c [Ident ''DDDDDI'', LParen, Ident name, RParen] = Some [Ident (DDDDDI name)]
   \<and> length (DI name) = 2 * length name + 1
   \<and> length (DDI name) = 2 * length (DI name) + 1
   \<and> length (DDDI name) = 2 * length (DDI name) + 1
   \<and> length (DDDDI name) = 2 * length (DDDI name) + 1
   \<and> length (DDDDDI name) = 2 * length (DDDDI name) + 1
   \<and> length (DDDDDI name) = 32 * length name + 31
   \<and> length (DDDDDI ''g1h2i3j4k5l6m7n'') = 511"
proof -
  have h: "longest_symbol_h = longest_symbol_h \<or> longest_symbol_h = longest_symbol_kunit_c"
    and k: "longest_symbol_kunit_c = longest_symbol_h \<or> longest_symbol_kunit_c = longest_symbol_kunit_c"
    by simp_all
  show ?thesis
    by (simp add: chain_expand [OF h] chain_expand [OF k] length_chain)
qed

text \<open>
  Claim C5, evaluated in both translation units. With the macros of \<^verbatim>\<open>longest_symbol.h\<close>
  the name \<^verbatim>\<open>LONGEST_SYM_NAME_PLUS1\<close> is no macro, so the function defined under it keeps
  that spelling, 22 characters; the macro the header does define, \<^verbatim>\<open>LONGEST_SYM_PLUS1\<close>,
  pastes \<^verbatim>\<open>e\<close> onto the unexpanded name and gives \<^verbatim>\<open>LONGEST_SYM_NAMEe\<close>. In
  \<^verbatim>\<open>lib/longest_symbol_kunit.c\<close> the name is the 511 characters followed by \<^verbatim>\<open>e\<close>, 512
  characters.
\<close>

theorem plus1_identifier_per_translation_unit:
  "expand_ident longest_symbol_h ''LONGEST_SYM_NAME_PLUS1'' = Some ''LONGEST_SYM_NAME_PLUS1''
   \<and> expand_ident longest_symbol_h ''LONGEST_SYM_PLUS1'' = Some ''LONGEST_SYM_NAMEe''
   \<and> map (\<lambda>f. length (fst f)) (defined_functions longest_symbol_h) = [511, 22]
   \<and> expand_ident longest_symbol_kunit_c ''LONGEST_SYM_NAME_PLUS1'' = Some (LONGEST_SYM_NAME @ ''e'')
   \<and> map (\<lambda>f. length (fst f)) (defined_functions longest_symbol_kunit_c) = [511, 512]"
proof -
  have a: "expand_ident longest_symbol_h ''LONGEST_SYM_NAME_PLUS1'' = Some ''LONGEST_SYM_NAME_PLUS1''"
    by code_simp
  have b: "expand_ident longest_symbol_h ''LONGEST_SYM_PLUS1'' = Some ''LONGEST_SYM_NAMEe''"
    by code_simp
  have c: "expand_ident longest_symbol_kunit_c ''LONGEST_SYM_NAME_PLUS1'' = Some (LONGEST_SYM_NAME @ ''e'')"
    by code_simp
  show ?thesis
    using a b c
    by (simp add: defined_functions_def stringify_LONGEST_SYM_NAME stringify_PLUS1 length_LONGEST_SYM_NAME)
qed

text \<open>
  Claim C9. \<^verbatim>\<open>LONGEST_SYMBOL\<close> of the selftest module has exactly 127 characters; its static
  assertion compares \<^verbatim>\<open>KSYM_NAME_LEN\<close> with the \<^verbatim>\<open>strlen\<close> of the name, so it holds exactly
  when \<^verbatim>\<open>KSYM_NAME_LEN\<close> is 127, whereas the assertion of the KUnit file compares it with
  \<^verbatim>\<open>sizeof\<close>, the length plus one for the NUL, and holds exactly when it is 512.
\<close>

theorem selftest_symbol_has_127_characters:
  "stringify test_longest_symbol_c [Ident ''LONGEST_SYMBOL''] = LONGEST_SYMBOL
   \<and> length LONGEST_SYMBOL = 127
   \<and> static_assert_test_longest_symbol_c ksym_name_len = (ksym_name_len = 127)
   \<and> static_assert_test_longest_symbol_c ksym_name_len = (ksym_name_len = length LONGEST_SYMBOL)
   \<and> static_assert_longest_symbol_kunit_c ksym_name_len = (ksym_name_len = length LONGEST_SYM_NAME + 1)
   \<and> static_assert_longest_symbol_kunit_c ksym_name_len = (ksym_name_len = 512)
   \<and> sizeof_literal LONGEST_SYM_NAME = strlen LONGEST_SYM_NAME + 1"
  by (auto simp add: stringify_LONGEST_SYMBOL length_LONGEST_SYMBOL static_assert_test_longest_symbol_c_def
      static_assert_longest_symbol_kunit_c_def stringify_LONGEST_SYM_NAME sizeof_literal_def
      length_LONGEST_SYM_NAME strlen_LONGEST_SYM_NAME)

section \<open>The generated functions and the tests that call them\<close>

text \<open>
  Claim C2. Whatever the state, \<^verbatim>\<open>LONGEST_SYM_NAME()\<close> returns 424242 and
  \<^verbatim>\<open>LONGEST_SYM_NAME_PLUS1()\<close> returns 434343 and both leave the state as it was; the two
  test cases that call them directly return with the KUnit context and the kernel unchanged.
\<close>

theorem generated_functions_return_constants:
  "LONGEST_SYM_NAME_func s = (424242, s)
   \<and> LONGEST_SYM_NAME_PLUS1_func s = (434343, s)
   \<and> test_longest_symbol test k = (Returned, test, k)
   \<and> test_longest_symbol_plus1 test k = (Returned, test, k)"
  by (simp add: LONGEST_SYM_NAME_func_def LONGEST_SYM_NAME_PLUS1_func_def test_longest_symbol_def
      test_longest_symbol_plus1_def KUNIT_EXPECT_EQ_def)

section \<open>Facts about the kernel services\<close>

lemma register_kprobe_fails:
  "register_result k (register_calls k) < 0 \<Longrightarrow>
   register_kprobe kp k = (register_result k (register_calls k), kp, k\<lparr>register_calls := Suc (register_calls k)\<rparr>)"
  by (simp add: register_kprobe_def)

lemma register_kprobe_succeeds:
  "0 \<le> register_result k (register_calls k) \<Longrightarrow>
   register_kprobe kp k =
     (register_result k (register_calls k), kp\<lparr>addr := symbol_address k (symbol_name kp)\<rparr>,
      k\<lparr>register_calls := Suc (register_calls k),
        kprobes := kp\<lparr>addr := symbol_address k (symbol_name kp)\<rparr> # kprobes k\<rparr>)"
  by (simp add: register_kprobe_def Let_def)

lemma unregister_after_register:
  "unregister_kprobe kp (k\<lparr>register_calls := n, kprobes := kp # kprobes k\<rparr>) = k\<lparr>register_calls := n\<rparr>"
  by (simp add: unregister_kprobe_def)

lemma test_longest_symbol_kallsyms_registered:
  assumes "0 \<le> register_result k (register_calls k)"
  shows "test_longest_symbol_kallsyms M test k =
    (case call_fn k (symbol_address k (stringify M [Ident ''LONGEST_SYM_NAME''])) of
       None \<Rightarrow> (Faulted, kunit_warn ''test_longest_symbol kallsyms: kprobe registered'' test,
          k\<lparr>register_calls := Suc (register_calls k), lookups := lookups k @ [stringify M [Ident ''LONGEST_SYM_NAME'']]\<rparr>)
     | Some v \<Rightarrow> (Returned, KUNIT_EXPECT_EQ 424242 v (kunit_warn ''test_longest_symbol kallsyms: kprobe registered'' test),
          k\<lparr>register_calls := Suc (register_calls k), lookups := lookups k @ [stringify M [Ident ''LONGEST_SYM_NAME'']]\<rparr>))"
  using assms
  by (simp add: test_longest_symbol_kallsyms_def register_kprobe_succeeds unregister_after_register
      kallsyms_lookup_name_def call_fn_def symbol_address_def Let_def split: option.splits)

lemma stringify_LONGEST_SYM_NAME_either:
  "M = longest_symbol_kunit_c \<or> M = longest_symbol_h \<Longrightarrow>
   stringify M [Ident ''LONGEST_SYM_NAME''] = LONGEST_SYM_NAME"
  by (auto simp add: stringify_LONGEST_SYM_NAME)

lemma LONGEST_SYMBOL_neq: "LONGEST_SYMBOL \<noteq> ''kallsyms_lookup_name''"
  by (simp add: LONGEST_SYMBOL_def)

lemma kernel_no_kprobes_refuses:
  "register_result kernel_no_kprobes (register_calls kernel_no_kprobes) < 0"
  by (simp add: kernel_no_kprobes_def boot_def)

lemma kernel_kunit_c_callable:
  "call_fn kernel_kunit_c (symbol_address kernel_kunit_c (stringify longest_symbol_kunit_c [Ident ''LONGEST_SYM_NAME''])) \<noteq> None"
  "call_fn kernel_plus1_resolved (symbol_address kernel_plus1_resolved (stringify longest_symbol_h [Ident ''LONGEST_SYM_NAME_PLUS1''])) \<noteq> None"
  by (simp_all add: stringify_LONGEST_SYM_NAME stringify_PLUS1 kernel_kunit_c_def kernel_plus1_resolved_def
      boot_def call_fn_def symbol_address_def)

lemma kernel_retry_aborts:
  "fst (test_longest_symbol_kallsyms longest_symbol_kunit_c kunit_init kernel_retry) = Aborted"
  "fst (test_longest_symbol_plus1_kallsyms_kunit_c kunit_init kernel_retry) = Aborted"
  "fst (test_longest_symbol_plus1_kallsyms_h kunit_init kernel_retry) = Aborted"
  by (simp_all add: kernel_retry_def boot_def test_longest_symbol_kallsyms_def
      test_longest_symbol_plus1_kallsyms_kunit_c_def test_longest_symbol_plus1_kallsyms_h_def
      register_kprobe_def pr_info_def kunit_warn_def KUNIT_ASSERT_TRUE_def symbol_address_def Let_def)

lemma refused_kallsyms:
  assumes "register_result k (register_calls k) < 0"
  shows "fst (test_longest_symbol_kallsyms M test k) \<noteq> Faulted
     \<and> length (failures test) < length (failures (fst (snd (test_longest_symbol_kallsyms M test k))))
     \<and> lookups (snd (snd (test_longest_symbol_kallsyms M test k))) = lookups k"
  using assms
  by (simp add: test_longest_symbol_kallsyms_def register_kprobe_def pr_info_def kunit_warn_def
      KUNIT_ASSERT_TRUE_def KUNIT_FAIL_def Let_def)

lemma refused_plus1_kunit_c:
  assumes "register_result k (register_calls k) < 0"
  shows "fst (test_longest_symbol_plus1_kallsyms_kunit_c test k) \<noteq> Faulted
     \<and> length (failures test) < length (failures (fst (snd (test_longest_symbol_plus1_kallsyms_kunit_c test k))))
     \<and> lookups (snd (snd (test_longest_symbol_plus1_kallsyms_kunit_c test k))) = lookups k"
  using assms
  by (simp add: test_longest_symbol_plus1_kallsyms_kunit_c_def register_kprobe_def pr_info_def kunit_warn_def
      KUNIT_ASSERT_TRUE_def KUNIT_FAIL_def Let_def)

lemma refused_plus1_h:
  assumes "register_result k (register_calls k) < 0"
  shows "fst (test_longest_symbol_plus1_kallsyms_h test k) \<noteq> Faulted
     \<and> length (failures test) < length (failures (fst (snd (test_longest_symbol_plus1_kallsyms_h test k))))
     \<and> lookups (snd (snd (test_longest_symbol_plus1_kallsyms_h test k))) = lookups k"
  using assms
  by (simp add: test_longest_symbol_plus1_kallsyms_h_def register_kprobe_def pr_info_def kunit_warn_def
      KUNIT_ASSERT_TRUE_def KUNIT_FAIL_def Let_def)

lemma aborted_records_failure:
  "fst (test_longest_symbol_kallsyms M test k) = Aborted \<Longrightarrow>
     length (failures test) < length (failures (fst (snd (test_longest_symbol_kallsyms M test k))))"
  "fst (test_longest_symbol_plus1_kallsyms_kunit_c test k) = Aborted \<Longrightarrow>
     length (failures test) < length (failures (fst (snd (test_longest_symbol_plus1_kallsyms_kunit_c test k))))"
  "fst (test_longest_symbol_plus1_kallsyms_h test k) = Aborted \<Longrightarrow>
     length (failures test) < length (failures (fst (snd (test_longest_symbol_plus1_kallsyms_h test k))))"
  by (auto simp add: test_longest_symbol_kallsyms_def test_longest_symbol_plus1_kallsyms_kunit_c_def
      test_longest_symbol_plus1_kallsyms_h_def register_kprobe_def unregister_kprobe_def
      kallsyms_lookup_name_def pr_info_def kunit_warn_def KUNIT_ASSERT_TRUE_def KUNIT_FAIL_def
      Let_def split: if_splits option.splits)

lemma no_fault_when_callable:
  "call_fn k (symbol_address k (stringify M [Ident ''LONGEST_SYM_NAME''])) \<noteq> None \<Longrightarrow>
     fst (test_longest_symbol_kallsyms M test k) \<noteq> Faulted"
  "call_fn k (symbol_address k (stringify longest_symbol_h [Ident ''LONGEST_SYM_NAME_PLUS1''])) \<noteq> None \<Longrightarrow>
     fst (test_longest_symbol_plus1_kallsyms_h test k) \<noteq> Faulted"
  "fst (test_longest_symbol_plus1_kallsyms_kunit_c test k) \<noteq> Faulted"
  "fst (test_longest_symbol test k) = Returned"
  "fst (test_longest_symbol_plus1 test k) = Returned"
  by (auto simp add: test_longest_symbol_kallsyms_def test_longest_symbol_plus1_kallsyms_kunit_c_def
      test_longest_symbol_plus1_kallsyms_h_def register_kprobe_def unregister_kprobe_def
      kallsyms_lookup_name_def pr_info_def kunit_warn_def KUNIT_ASSERT_TRUE_def KUNIT_FAIL_def
      test_longest_symbol_def test_longest_symbol_plus1_def LONGEST_SYM_NAME_func_def
      LONGEST_SYM_NAME_PLUS1_func_def call_fn_def symbol_address_def
      Let_def split: if_splits option.splits)

lemma refused_twice_returns:
  assumes "register_result k (register_calls k) < 0"
      and "register_result k (Suc (register_calls k)) < 0"
  shows "fst (test_longest_symbol_kallsyms M test k) = Returned"
    and "fst (test_longest_symbol_plus1_kallsyms_kunit_c test k) = Returned"
    and "fst (test_longest_symbol_plus1_kallsyms_h test k) = Returned"
  using assms
  by (simp_all add: test_longest_symbol_kallsyms_def test_longest_symbol_plus1_kallsyms_kunit_c_def
      test_longest_symbol_plus1_kallsyms_h_def register_kprobe_def pr_info_def kunit_warn_def
      KUNIT_ASSERT_TRUE_def KUNIT_FAIL_def Let_def)

lemma expectation_met:
  "(failures (KUNIT_EXPECT_EQ left right test) = failures test) = (left = right)"
  by (simp add: KUNIT_EXPECT_EQ_def)

lemma kernel_symbol_addresses:
  "symbol_address kernel_kunit_c LONGEST_SYM_NAME = 8192"
  "symbol_address kernel_longest_symbol_h LONGEST_SYM_NAME = 8192"
  "symbol_address kernel_unresolved LONGEST_SYM_NAME = 0"
  by code_simp+

section \<open>The lookup of the longest symbol\<close>

text \<open>
  Claim C3, as stated, fails: the precondition that \<^verbatim>\<open>register_kprobe\<close> succeeds does not
  make the lookup return the address of the generated function. On a kernel whose symbol table
  lacks the 511-character name the registration succeeds, the lookup through the obtained
  pointer returns 0, no function is there to call, and neither version of the case returns.
\<close>

theorem longest_symbol_lookup_returns_null:
  "0 \<le> register_result kernel_unresolved (register_calls kernel_unresolved)
   \<and> fst (kallsyms_lookup_name (symbol_address kernel_unresolved ''kallsyms_lookup_name'')
          LONGEST_SYM_NAME kernel_unresolved) = 0
   \<and> call_fn kernel_unresolved
        (fst (kallsyms_lookup_name (symbol_address kernel_unresolved ''kallsyms_lookup_name'')
           LONGEST_SYM_NAME kernel_unresolved)) = None
   \<and> fst (test_longest_symbol_kallsyms longest_symbol_h kunit_init kernel_unresolved) \<noteq> Returned
   \<and> fst (test_longest_symbol_kallsyms longest_symbol_kunit_c kunit_init kernel_unresolved) \<noteq> Returned"
proof -
  have reg: "0 \<le> register_result kernel_unresolved (register_calls kernel_unresolved)"
    by (simp add: kernel_unresolved_def boot_def)
  show ?thesis
    using reg
    by (simp add: test_longest_symbol_kallsyms_registered [OF reg] stringify_LONGEST_SYM_NAME
        kallsyms_lookup_name_def kernel_symbol_addresses call_fn_def)
qed

text \<open>
  Claim C3, amended. In \<^verbatim>\<open>test_longest_symbol_kallsyms\<close> of either KUnit file, when
  \<^verbatim>\<open>register_kprobe\<close> on \<^verbatim>\<open>"kallsyms_lookup_name"\<close> succeeds, the probe holds the address
  of \<^verbatim>\<open>kallsyms_lookup_name\<close>; the case unregisters the probe, looks up the stringified
  511-character name once through that pointer and calls the pointer the lookup returns. It
  returns with no failure recorded exactly when that call yields 424242; a call that yields
  another value records a failed expectation.
\<close>

theorem longest_symbol_lookup_decides:
  assumes reg: "0 \<le> register_result k (register_calls k)"
      and M: "M = longest_symbol_kunit_c \<or> M = longest_symbol_h"
  shows "stringify M [Ident ''LONGEST_SYM_NAME''] = LONGEST_SYM_NAME
     \<and> length LONGEST_SYM_NAME = 511
     \<and> addr (fst (snd (register_kprobe \<lparr>symbol_name = ''kallsyms_lookup_name'', addr = 0\<rparr> k)))
          = symbol_address k ''kallsyms_lookup_name''
     \<and> test_longest_symbol_kallsyms M test k =
          (case call_fn k
                  (fst (kallsyms_lookup_name (symbol_address k ''kallsyms_lookup_name'')
                     LONGEST_SYM_NAME k)) of
             None \<Rightarrow>
               (Faulted, kunit_warn ''test_longest_symbol kallsyms: kprobe registered'' test,
                k\<lparr>register_calls := Suc (register_calls k),
                  lookups := lookups k @ [LONGEST_SYM_NAME]\<rparr>)
           | Some v \<Rightarrow>
               (Returned,
                KUNIT_EXPECT_EQ 424242 v
                  (kunit_warn ''test_longest_symbol kallsyms: kprobe registered'' test),
                k\<lparr>register_calls := Suc (register_calls k),
                  lookups := lookups k @ [LONGEST_SYM_NAME]\<rparr>))
     \<and> (fst (test_longest_symbol_kallsyms M test k) = Returned
          \<and> failures (fst (snd (test_longest_symbol_kallsyms M test k))) = failures test)
         = (call_fn k
              (fst (kallsyms_lookup_name (symbol_address k ''kallsyms_lookup_name'')
                 LONGEST_SYM_NAME k)) = Some 424242)"
proof -
  have name: "stringify M [Ident ''LONGEST_SYM_NAME''] = LONGEST_SYM_NAME"
    using M by (rule stringify_LONGEST_SYM_NAME_either)
  have ptr: "addr (fst (snd (register_kprobe \<lparr>symbol_name = ''kallsyms_lookup_name'', addr = 0\<rparr> k)))
      = symbol_address k ''kallsyms_lookup_name''"
    by (simp add: register_kprobe_succeeds [OF reg])
  have looked: "fst (kallsyms_lookup_name (symbol_address k ''kallsyms_lookup_name'') LONGEST_SYM_NAME k)
      = symbol_address k LONGEST_SYM_NAME"
    by (simp add: kallsyms_lookup_name_def)
  have body: "test_longest_symbol_kallsyms M test k =
      (case call_fn k (symbol_address k LONGEST_SYM_NAME) of
         None \<Rightarrow>
           (Faulted, kunit_warn ''test_longest_symbol kallsyms: kprobe registered'' test,
            k\<lparr>register_calls := Suc (register_calls k), lookups := lookups k @ [LONGEST_SYM_NAME]\<rparr>)
       | Some v \<Rightarrow>
           (Returned,
            KUNIT_EXPECT_EQ 424242 v (kunit_warn ''test_longest_symbol kallsyms: kprobe registered'' test),
            k\<lparr>register_calls := Suc (register_calls k), lookups := lookups k @ [LONGEST_SYM_NAME]\<rparr>))"
    using test_longest_symbol_kallsyms_registered [OF reg, of M test] by (simp only: name)
  have passes: "(fst (test_longest_symbol_kallsyms M test k) = Returned
        \<and> failures (fst (snd (test_longest_symbol_kallsyms M test k))) = failures test)
      = (call_fn k (symbol_address k LONGEST_SYM_NAME) = Some 424242)"
  proof (cases "call_fn k (symbol_address k LONGEST_SYM_NAME)")
    case None
    then show ?thesis by (simp add: body)
  next
    case (Some v)
    have "failures (kunit_warn ''test_longest_symbol kallsyms: kprobe registered'' test) = failures test"
      by (simp add: kunit_warn_def)
    with Some show ?thesis
      using expectation_met [of 424242 v "kunit_warn ''test_longest_symbol kallsyms: kprobe registered'' test"]
      by (auto simp add: body)
  qed
  show ?thesis
    using name ptr body passes by (simp only: looked length_LONGEST_SYM_NAME)
qed

text \<open>
  The hypotheses are met by the kernels built with either file; there the call yields 424242
  and the case returns with nothing recorded.
\<close>

theorem longest_symbol_lookup_decides_witness:
  "0 \<le> register_result kernel_kunit_c (register_calls kernel_kunit_c)
   \<and> call_fn kernel_kunit_c
        (fst (kallsyms_lookup_name (symbol_address kernel_kunit_c ''kallsyms_lookup_name'')
           LONGEST_SYM_NAME kernel_kunit_c))
       = Some 424242
   \<and> fst (test_longest_symbol_kallsyms longest_symbol_kunit_c kunit_init kernel_kunit_c) = Returned
   \<and> failures (fst (snd (test_longest_symbol_kallsyms longest_symbol_kunit_c kunit_init kernel_kunit_c))) = []
   \<and> 0 \<le> register_result kernel_longest_symbol_h (register_calls kernel_longest_symbol_h)
   \<and> fst (test_longest_symbol_kallsyms longest_symbol_h kunit_init kernel_longest_symbol_h) = Returned
   \<and> failures (fst (snd (test_longest_symbol_kallsyms longest_symbol_h kunit_init kernel_longest_symbol_h))) = []"
proof -
  have reg: "0 \<le> register_result kernel_kunit_c (register_calls kernel_kunit_c)"
    by (simp add: kernel_kunit_c_def boot_def)
  have reg': "0 \<le> register_result kernel_longest_symbol_h (register_calls kernel_longest_symbol_h)"
    by (simp add: kernel_longest_symbol_h_def boot_def)
  have M: "longest_symbol_kunit_c = longest_symbol_kunit_c \<or> longest_symbol_kunit_c = longest_symbol_h"
    and M': "longest_symbol_h = longest_symbol_kunit_c \<or> longest_symbol_h = longest_symbol_h"
    by simp_all
  have c: "call_fn kernel_kunit_c 8192 = Some 424242"
    and c': "call_fn kernel_longest_symbol_h 8192 = Some 424242"
    by (simp_all add: call_fn_def kernel_kunit_c_def kernel_longest_symbol_h_def boot_def)
  have f: "failures kunit_init = []"
    by (simp add: kunit_init_def)
  show ?thesis
    using reg reg'
      longest_symbol_lookup_decides [OF reg M, of kunit_init]
      longest_symbol_lookup_decides [OF reg' M', of kunit_init]
    by (simp add: kallsyms_lookup_name_def kernel_symbol_addresses c c' f KUNIT_EXPECT_EQ_def
        kunit_warn_def)
qed

section \<open>The two versions of the one-past-the-limit lookup\<close>

text \<open>
  Claim C4, as stated, fails: on a kernel whose symbol table resolves the name each file looks
  up to the second function, the case of \<^verbatim>\<open>lib/longest_symbol_kunit.c\<close> records a failed
  expectation (it expects \<^verbatim>\<open>NULL\<close>) and the case of the file that includes the header records
  none (it calls the pointer and gets 434343).
\<close>

theorem plus1_kallsyms_cases_differ:
  "0 \<le> register_result kernel_plus1_resolved (register_calls kernel_plus1_resolved)
   \<and> fst (test_longest_symbol_plus1_kallsyms_kunit_c kunit_init kernel_plus1_resolved) = Returned
   \<and> failures (fst (snd (test_longest_symbol_plus1_kallsyms_kunit_c kunit_init kernel_plus1_resolved))) = [''KUNIT_EXPECT_EQ'']
   \<and> fst (test_longest_symbol_plus1_kallsyms_h kunit_init kernel_plus1_resolved) = Returned
   \<and> failures (fst (snd (test_longest_symbol_plus1_kallsyms_h kunit_init kernel_plus1_resolved))) = []"
  by (simp add: kernel_plus1_resolved_def boot_def test_longest_symbol_plus1_kallsyms_kunit_c_def
      test_longest_symbol_plus1_kallsyms_h_def register_kprobe_def unregister_kprobe_def
      kallsyms_lookup_name_def stringify_PLUS1 symbol_address_def call_fn_def kunit_warn_def
      KUNIT_EXPECT_EQ_def kunit_init_def Let_def)

text \<open>
  Claim C4, amended. The two versions of \<^verbatim>\<open>test_longest_symbol_plus1_kallsyms\<close> do the same
  while the kprobe cannot be registered. After a successful registration both unregister the
  probe and look up the stringified \<^verbatim>\<open>LONGEST_SYM_NAME_PLUS1\<close> of their own file once; then
  \<^verbatim>\<open>lib/longest_symbol_kunit.c\<close> expects the returned pointer to be \<^verbatim>\<open>NULL\<close> and does not call
  it, while the file that includes the header calls the pointer and expects 434343.
\<close>

theorem plus1_kallsyms_cases_compared:
  "(register_result k (register_calls k) < 0 \<longrightarrow>
      test_longest_symbol_plus1_kallsyms_kunit_c test k = test_longest_symbol_plus1_kallsyms_h test k)
   \<and> (0 \<le> register_result k (register_calls k) \<longrightarrow>
      test_longest_symbol_plus1_kallsyms_kunit_c test k =
        (Returned,
         KUNIT_EXPECT_EQ 0
           (symbol_address k (stringify longest_symbol_kunit_c [Ident ''LONGEST_SYM_NAME_PLUS1'']))
           (kunit_warn ''test_longest_symbol_plus1 kallsyms: kprobe registered'' test),
         k\<lparr>register_calls := Suc (register_calls k),
           lookups := lookups k @ [stringify longest_symbol_kunit_c [Ident ''LONGEST_SYM_NAME_PLUS1'']]\<rparr>)
      \<and> test_longest_symbol_plus1_kallsyms_h test k =
        (case call_fn k (symbol_address k (stringify longest_symbol_h [Ident ''LONGEST_SYM_NAME_PLUS1''])) of
           None \<Rightarrow>
             (Faulted, test,
              k\<lparr>register_calls := Suc (register_calls k),
                lookups := lookups k @ [stringify longest_symbol_h [Ident ''LONGEST_SYM_NAME_PLUS1'']]\<rparr>)
         | Some v \<Rightarrow>
             (Returned, KUNIT_EXPECT_EQ 434343 v test,
              k\<lparr>register_calls := Suc (register_calls k),
                lookups := lookups k @ [stringify longest_symbol_h [Ident ''LONGEST_SYM_NAME_PLUS1'']]\<rparr>)))"
proof (intro conjI impI)
  assume "register_result k (register_calls k) < 0"
  then show "test_longest_symbol_plus1_kallsyms_kunit_c test k = test_longest_symbol_plus1_kallsyms_h test k"
    by (simp add: test_longest_symbol_plus1_kallsyms_kunit_c_def test_longest_symbol_plus1_kallsyms_h_def
        register_kprobe_fails Let_def)
next
  assume reg: "0 \<le> register_result k (register_calls k)"
  then show "test_longest_symbol_plus1_kallsyms_kunit_c test k =
        (Returned,
         KUNIT_EXPECT_EQ 0
           (symbol_address k (stringify longest_symbol_kunit_c [Ident ''LONGEST_SYM_NAME_PLUS1'']))
           (kunit_warn ''test_longest_symbol_plus1 kallsyms: kprobe registered'' test),
         k\<lparr>register_calls := Suc (register_calls k),
           lookups := lookups k @ [stringify longest_symbol_kunit_c [Ident ''LONGEST_SYM_NAME_PLUS1'']]\<rparr>)"
    by (simp add: test_longest_symbol_plus1_kallsyms_kunit_c_def register_kprobe_succeeds
        unregister_after_register kallsyms_lookup_name_def symbol_address_def Let_def)
next
  assume reg: "0 \<le> register_result k (register_calls k)"
  then show "test_longest_symbol_plus1_kallsyms_h test k =
        (case call_fn k (symbol_address k (stringify longest_symbol_h [Ident ''LONGEST_SYM_NAME_PLUS1''])) of
           None \<Rightarrow>
             (Faulted, test,
              k\<lparr>register_calls := Suc (register_calls k),
                lookups := lookups k @ [stringify longest_symbol_h [Ident ''LONGEST_SYM_NAME_PLUS1'']]\<rparr>)
         | Some v \<Rightarrow>
             (Returned, KUNIT_EXPECT_EQ 434343 v test,
              k\<lparr>register_calls := Suc (register_calls k),
                lookups := lookups k @ [stringify longest_symbol_h [Ident ''LONGEST_SYM_NAME_PLUS1'']]\<rparr>))"
    by (simp add: test_longest_symbol_plus1_kallsyms_h_def register_kprobe_succeeds
        unregister_after_register kallsyms_lookup_name_def call_fn_def symbol_address_def
        Let_def split: option.splits)
qed

text \<open>Both hypotheses are met: by a kernel without kprobes, and by the kernel of the KUnit file.\<close>

theorem plus1_kallsyms_cases_compared_witness:
  "register_result kernel_no_kprobes (register_calls kernel_no_kprobes) < 0
   \<and> test_longest_symbol_plus1_kallsyms_kunit_c kunit_init kernel_no_kprobes =
       test_longest_symbol_plus1_kallsyms_h kunit_init kernel_no_kprobes
   \<and> 0 \<le> register_result kernel_kunit_c (register_calls kernel_kunit_c)
   \<and> fst (test_longest_symbol_plus1_kallsyms_kunit_c kunit_init kernel_kunit_c) = Returned
   \<and> failures (fst (snd (test_longest_symbol_plus1_kallsyms_kunit_c kunit_init kernel_kunit_c))) = []
   \<and> lookups (snd (snd (test_longest_symbol_plus1_kallsyms_kunit_c kunit_init kernel_kunit_c))) = [LONGEST_SYM_NAME @ ''e'']
   \<and> fst (test_longest_symbol_plus1_kallsyms_h kunit_init kernel_kunit_c) = Faulted
   \<and> lookups (snd (snd (test_longest_symbol_plus1_kallsyms_h kunit_init kernel_kunit_c))) = [''LONGEST_SYM_NAME_PLUS1'']"
proof -
  have a: "symbol_address kernel_kunit_c (LONGEST_SYM_NAME @ ''e'') = 0"
    and b: "symbol_address kernel_kunit_c ''LONGEST_SYM_NAME_PLUS1'' = 0"
    by code_simp+
  have reg: "0 \<le> register_result kernel_kunit_c (register_calls kernel_kunit_c)"
    by (simp add: kernel_kunit_c_def boot_def)
  have l: "lookups kernel_kunit_c = []"
    by (simp add: kernel_kunit_c_def boot_def)
  show ?thesis
    using plus1_kallsyms_cases_compared [of kernel_no_kprobes kunit_init] plus1_kallsyms_cases_compared [of kernel_kunit_c kunit_init]
      kernel_no_kprobes_refuses reg
    by (simp add: a b l stringify_PLUS1 call_fn_def KUNIT_EXPECT_EQ_def kunit_warn_def kunit_init_def)
qed

section \<open>How the test cases signal errors\<close>

text \<open>
  Claim C7, as stated, fails: on a kernel whose symbol table lacks the longest symbol, the
  lookup returns 0, \<^verbatim>\<open>test_longest_symbol_kallsyms\<close> calls that null pointer, and the case ends
  in a fault with no KUnit failure recorded.
\<close>

theorem unresolved_symbol_faults:
  "0 \<le> register_result kernel_unresolved (register_calls kernel_unresolved)
   \<and> fst (test_longest_symbol_kallsyms longest_symbol_kunit_c kunit_init kernel_unresolved) = Faulted
   \<and> failures (fst (snd (test_longest_symbol_kallsyms longest_symbol_kunit_c kunit_init kernel_unresolved))) = []"
proof -
  have reg: "0 \<le> register_result kernel_unresolved (register_calls kernel_unresolved)"
    by (simp add: kernel_unresolved_def boot_def)
  have "symbol_address kernel_unresolved LONGEST_SYM_NAME = 0"
    by code_simp
  then show ?thesis
    using reg
    by (simp add: test_longest_symbol_kallsyms_registered [OF reg] stringify_LONGEST_SYM_NAME
        call_fn_def kunit_warn_def kunit_init_def)
qed

text \<open>
  Claim C7, amended. In each KUnit test case, if \<^verbatim>\<open>register_kprobe\<close> fails the case records a
  KUnit failure and ends without a fault and without performing the lookup, and it ends by
  returning when the repeated \<^verbatim>\<open>register_kprobe\<close> of the failure branch fails as well; a case
  is aborted only with a KUnit failure recorded; and a case that calls the looked-up pointer
  ends by returning or by a failed assertion whenever that pointer is the address of a
  function, as the cases that call no looked-up pointer always do.
\<close>

theorem kunit_cases_error_signals:
  "(register_result k (register_calls k) < 0 \<longrightarrow>
      fst (test_longest_symbol_kallsyms M test k) \<noteq> Faulted
      \<and> length (failures test) < length (failures (fst (snd (test_longest_symbol_kallsyms M test k))))
      \<and> lookups (snd (snd (test_longest_symbol_kallsyms M test k))) = lookups k
      \<and> fst (test_longest_symbol_plus1_kallsyms_kunit_c test k) \<noteq> Faulted
      \<and> length (failures test) < length (failures (fst (snd (test_longest_symbol_plus1_kallsyms_kunit_c test k))))
      \<and> lookups (snd (snd (test_longest_symbol_plus1_kallsyms_kunit_c test k))) = lookups k
      \<and> fst (test_longest_symbol_plus1_kallsyms_h test k) \<noteq> Faulted
      \<and> length (failures test) < length (failures (fst (snd (test_longest_symbol_plus1_kallsyms_h test k))))
      \<and> lookups (snd (snd (test_longest_symbol_plus1_kallsyms_h test k))) = lookups k)
   \<and> (fst (test_longest_symbol_kallsyms M test k) = Aborted \<longrightarrow>
      length (failures test) < length (failures (fst (snd (test_longest_symbol_kallsyms M test k)))))
   \<and> (fst (test_longest_symbol_plus1_kallsyms_kunit_c test k) = Aborted \<longrightarrow>
      length (failures test) < length (failures (fst (snd (test_longest_symbol_plus1_kallsyms_kunit_c test k)))))
   \<and> (fst (test_longest_symbol_plus1_kallsyms_h test k) = Aborted \<longrightarrow>
      length (failures test) < length (failures (fst (snd (test_longest_symbol_plus1_kallsyms_h test k)))))
   \<and> (call_fn k (symbol_address k (stringify M [Ident ''LONGEST_SYM_NAME''])) \<noteq> None \<longrightarrow>
      fst (test_longest_symbol_kallsyms M test k) \<noteq> Faulted)
   \<and> (call_fn k (symbol_address k (stringify longest_symbol_h [Ident ''LONGEST_SYM_NAME_PLUS1''])) \<noteq> None \<longrightarrow>
      fst (test_longest_symbol_plus1_kallsyms_h test k) \<noteq> Faulted)
   \<and> fst (test_longest_symbol_plus1_kallsyms_kunit_c test k) \<noteq> Faulted
   \<and> fst (test_longest_symbol test k) = Returned
   \<and> fst (test_longest_symbol_plus1 test k) = Returned
   \<and> (register_result k (register_calls k) < 0 \<and> register_result k (Suc (register_calls k)) < 0 \<longrightarrow>
      fst (test_longest_symbol_kallsyms M test k) = Returned
      \<and> fst (test_longest_symbol_plus1_kallsyms_kunit_c test k) = Returned
      \<and> fst (test_longest_symbol_plus1_kallsyms_h test k) = Returned)"
  using refused_kallsyms [of k M test] refused_plus1_kunit_c [of k test] refused_plus1_h [of k test]
    refused_twice_returns(1) [of k M test] refused_twice_returns(2) [of k test]
    refused_twice_returns(3) [of k test]
    aborted_records_failure(1) [of M test k] aborted_records_failure(2) [of test k]
    aborted_records_failure(3) [of test k]
    no_fault_when_callable(1) [of k M test] no_fault_when_callable(2) [of k test]
    no_fault_when_callable(3) [of test k] no_fault_when_callable(4) [of test k]
    no_fault_when_callable(5) [of test k]
  by blast

text \<open>
  The hypotheses are met: a kernel without kprobes refuses the registration and its
  repetition, the kernel whose first registration fails and second succeeds aborts each case,
  and two kernels resolve the looked-up names to functions.
\<close>

theorem kunit_cases_error_signals_witness:
  "register_result kernel_no_kprobes (register_calls kernel_no_kprobes) < 0
   \<and> fst (test_longest_symbol_kallsyms longest_symbol_kunit_c kunit_init kernel_no_kprobes) \<noteq> Faulted
   \<and> 0 < length (failures (fst (snd (test_longest_symbol_kallsyms longest_symbol_kunit_c kunit_init kernel_no_kprobes))))
   \<and> lookups (snd (snd (test_longest_symbol_kallsyms longest_symbol_kunit_c kunit_init kernel_no_kprobes))) = []
   \<and> 0 < length (failures (fst (snd (test_longest_symbol_plus1_kallsyms_kunit_c kunit_init kernel_no_kprobes))))
   \<and> 0 < length (failures (fst (snd (test_longest_symbol_plus1_kallsyms_h kunit_init kernel_no_kprobes))))
   \<and> fst (test_longest_symbol_kallsyms longest_symbol_kunit_c kunit_init kernel_retry) = Aborted
   \<and> 0 < length (failures (fst (snd (test_longest_symbol_kallsyms longest_symbol_kunit_c kunit_init kernel_retry))))
   \<and> fst (test_longest_symbol_plus1_kallsyms_kunit_c kunit_init kernel_retry) = Aborted
   \<and> 0 < length (failures (fst (snd (test_longest_symbol_plus1_kallsyms_kunit_c kunit_init kernel_retry))))
   \<and> fst (test_longest_symbol_plus1_kallsyms_h kunit_init kernel_retry) = Aborted
   \<and> 0 < length (failures (fst (snd (test_longest_symbol_plus1_kallsyms_h kunit_init kernel_retry))))
   \<and> call_fn kernel_kunit_c (symbol_address kernel_kunit_c (stringify longest_symbol_kunit_c [Ident ''LONGEST_SYM_NAME''])) \<noteq> None
   \<and> fst (test_longest_symbol_kallsyms longest_symbol_kunit_c kunit_init kernel_kunit_c) \<noteq> Faulted
   \<and> call_fn kernel_plus1_resolved (symbol_address kernel_plus1_resolved (stringify longest_symbol_h [Ident ''LONGEST_SYM_NAME_PLUS1''])) \<noteq> None
   \<and> fst (test_longest_symbol_plus1_kallsyms_h kunit_init kernel_plus1_resolved) \<noteq> Faulted
   \<and> register_result kernel_no_kprobes (Suc (register_calls kernel_no_kprobes)) < 0
   \<and> fst (test_longest_symbol_kallsyms longest_symbol_kunit_c kunit_init kernel_no_kprobes) = Returned
   \<and> fst (test_longest_symbol_plus1_kallsyms_kunit_c kunit_init kernel_no_kprobes) = Returned
   \<and> fst (test_longest_symbol_plus1_kallsyms_h kunit_init kernel_no_kprobes) = Returned"
  using kunit_cases_error_signals [of kernel_no_kprobes longest_symbol_kunit_c kunit_init]
    kunit_cases_error_signals [of kernel_retry longest_symbol_kunit_c kunit_init]
    kunit_cases_error_signals [of kernel_kunit_c longest_symbol_kunit_c kunit_init]
    kunit_cases_error_signals [of kernel_plus1_resolved longest_symbol_kunit_c kunit_init]
    kernel_no_kprobes_refuses kernel_kunit_c_callable kernel_retry_aborts
  by (simp add: kunit_init_def kernel_no_kprobes_def boot_def)

section \<open>Registered kprobes\<close>

text \<open>
  Claim C8. On a kernel that keeps refusing a probe it has refused, every test case and
  \<^verbatim>\<open>check_longest_symbol_exported\<close> leave the registered kprobes as they found them. A
  successful \<^verbatim>\<open>register_kprobe\<close> puts the probe among the registered ones and
  \<^verbatim>\<open>unregister_kprobe\<close> on that same probe takes it out again; each entry point that registers
  does so once when the registration succeeds (twice, in the KUnit cases, when it is refused),
  and a refused registration registers nothing.
\<close>

theorem registered_kprobe_is_unregistered:
  assumes persists: "refusal_persists k"
  shows "kprobes (snd (snd (test_longest_symbol_kallsyms M test k))) = kprobes k
     \<and> kprobes (snd (snd (test_longest_symbol_plus1_kallsyms_kunit_c test k))) = kprobes k
     \<and> kprobes (snd (snd (test_longest_symbol_plus1_kallsyms_h test k))) = kprobes k
     \<and> kprobes (snd (snd (test_longest_symbol test k))) = kprobes k
     \<and> kprobes (snd (snd (test_longest_symbol_plus1 test k))) = kprobes k
     \<and> kprobes (snd (check_longest_symbol_exported k)) = kprobes k
     \<and> register_calls (snd (snd (test_longest_symbol_kallsyms M test k))) =
         (if register_result k (register_calls k) < 0
          then Suc (Suc (register_calls k)) else Suc (register_calls k))
     \<and> register_calls (snd (snd (test_longest_symbol_plus1_kallsyms_kunit_c test k))) =
         (if register_result k (register_calls k) < 0
          then Suc (Suc (register_calls k)) else Suc (register_calls k))
     \<and> register_calls (snd (snd (test_longest_symbol_plus1_kallsyms_h test k))) =
         (if register_result k (register_calls k) < 0
          then Suc (Suc (register_calls k)) else Suc (register_calls k))
     \<and> register_calls (snd (check_longest_symbol_exported k)) = Suc (register_calls k)
     \<and> (if register_result k (register_calls k) < 0
         then kprobes (snd (snd (register_kprobe kp k))) = kprobes k
         else kprobes (snd (snd (register_kprobe kp k))) = fst (snd (register_kprobe kp k)) # kprobes k
            \<and> kprobes (unregister_kprobe (fst (snd (register_kprobe kp k)))
                  (snd (snd (register_kprobe kp k)))) = kprobes k)"
proof (cases "register_result k (register_calls k) < 0")
  case True
  with persists have again: "register_result k (Suc (register_calls k)) < 0"
    by (simp add: refusal_persists_def)
  from True again show ?thesis
    by (simp add: test_longest_symbol_kallsyms_def test_longest_symbol_plus1_kallsyms_kunit_c_def
        test_longest_symbol_plus1_kallsyms_h_def check_longest_symbol_exported_def
        register_kprobe_def pr_info_def kunit_warn_def KUNIT_ASSERT_TRUE_def KUNIT_FAIL_def
        test_longest_symbol_def test_longest_symbol_plus1_def LONGEST_SYM_NAME_func_def
        LONGEST_SYM_NAME_PLUS1_func_def Let_def)
next
  case False
  then have reg: "0 \<le> register_result k (register_calls k)"
    by simp
  from False show ?thesis
    by (simp add: test_longest_symbol_kallsyms_def test_longest_symbol_plus1_kallsyms_kunit_c_def
        test_longest_symbol_plus1_kallsyms_h_def check_longest_symbol_exported_def
        register_kprobe_succeeds [OF reg] unregister_after_register unregister_kprobe_def
        kallsyms_lookup_name_def pr_info_def call_fn_def
        test_longest_symbol_def test_longest_symbol_plus1_def LONGEST_SYM_NAME_func_def
        LONGEST_SYM_NAME_PLUS1_func_def Let_def split: option.splits)
qed

text \<open>
  The hypothesis is met by a kernel that accepts the registration and by a kernel without
  kprobes, which refuses it twice.
\<close>

theorem registered_kprobe_is_unregistered_witness:
  "refusal_persists kernel_kunit_c
   \<and> kprobes (snd (snd (test_longest_symbol_kallsyms longest_symbol_kunit_c kunit_init kernel_kunit_c))) = []
   \<and> register_calls (snd (snd (test_longest_symbol_kallsyms longest_symbol_kunit_c kunit_init kernel_kunit_c))) = 1
   \<and> kprobes (snd (check_longest_symbol_exported kernel_kunit_c)) = []
   \<and> refusal_persists kernel_no_kprobes
   \<and> kprobes (snd (snd (test_longest_symbol_kallsyms longest_symbol_kunit_c kunit_init kernel_no_kprobes))) = []
   \<and> register_calls (snd (snd (test_longest_symbol_kallsyms longest_symbol_kunit_c kunit_init kernel_no_kprobes))) = 2
   \<and> kprobes (snd (snd (test_longest_symbol_plus1_kallsyms_kunit_c kunit_init kernel_no_kprobes))) = []
   \<and> kprobes (snd (snd (test_longest_symbol_plus1_kallsyms_h kunit_init kernel_no_kprobes))) = []"
proof -
  have p: "refusal_persists kernel_kunit_c"
    by (simp add: refusal_persists_def kernel_kunit_c_def boot_def)
  have p': "refusal_persists kernel_no_kprobes"
    by (simp add: refusal_persists_def kernel_no_kprobes_def boot_def)
  show ?thesis
    using p p'
      registered_kprobe_is_unregistered [OF p, of longest_symbol_kunit_c kunit_init]
      registered_kprobe_is_unregistered [OF p', of longest_symbol_kunit_c kunit_init]
    by (simp add: kernel_kunit_c_def kernel_no_kprobes_def boot_def)
qed

text \<open>
  The hypothesis is needed for the KUnit cases only: their failure branch calls
  \<^verbatim>\<open>register_kprobe\<close> a second time, inside \<^verbatim>\<open>KUNIT_ASSERT_TRUE\<close>, and nothing unregisters
  what that call would register. On a kernel that accepted the repeated call the assertion
  would fail and abort the case with the probe still registered.
\<close>

lemma kprobe_left_registered_by_retry:
  "register_result kernel_retry (register_calls kernel_retry) < 0
   \<and> 0 \<le> register_result kernel_retry (Suc (register_calls kernel_retry))
   \<and> kprobes kernel_retry = []
   \<and> fst (test_longest_symbol_kallsyms longest_symbol_kunit_c kunit_init kernel_retry) = Aborted
   \<and> kprobes (snd (snd (test_longest_symbol_kallsyms longest_symbol_kunit_c kunit_init kernel_retry)))
       = [\<lparr>symbol_name = ''kallsyms_lookup_name'', addr = 4096\<rparr>]
   \<and> kprobes (snd (snd (test_longest_symbol_plus1_kallsyms_kunit_c kunit_init kernel_retry)))
       = [\<lparr>symbol_name = ''kallsyms_lookup_name'', addr = 4096\<rparr>]
   \<and> kprobes (snd (snd (test_longest_symbol_plus1_kallsyms_h kunit_init kernel_retry)))
       = [\<lparr>symbol_name = ''kallsyms_lookup_name'', addr = 4096\<rparr>]"
  by (simp add: kernel_retry_def boot_def test_longest_symbol_kallsyms_def
      test_longest_symbol_plus1_kallsyms_kunit_c_def test_longest_symbol_plus1_kallsyms_h_def
      register_kprobe_def pr_info_def kunit_warn_def KUNIT_ASSERT_TRUE_def symbol_address_def Let_def)

text \<open>
  \<^verbatim>\<open>check_longest_symbol_exported\<close> and \<^verbatim>\<open>selftest\<close> leave the registered kprobes as they
  found them, whatever \<^verbatim>\<open>register_kprobe\<close> returns: the failure branch makes no second call.
\<close>

theorem selftest_leaves_no_kprobe:
  "kprobes (snd (check_longest_symbol_exported k)) = kprobes k
   \<and> kprobes (snd (selftest config_kprobes g k)) = kprobes k"
  by (simp add: check_longest_symbol_exported_def register_kprobe_def unregister_kprobe_def
      kallsyms_lookup_name_def pr_info_def selftest_def KSTM_CHECK_ZERO_def Let_def
      split: prod.splits)

section \<open>The selftest\<close>

text \<open>
  Claim C10. \<^verbatim>\<open>check_longest_symbol_exported\<close> returns 0 exactly when \<^verbatim>\<open>register_kprobe\<close>
  succeeds and the lookup of the stringified \<^verbatim>\<open>LONGEST_SYMBOL\<close> returns a non-zero address,
  and 1 otherwise; it prints exactly one message, the diagnostic of the case it is in, and
  looks the name up only after a successful registration; with \<^verbatim>\<open>CONFIG_KPROBES\<close> the
  selftest counts one check, and one failed check exactly when the result is not 0.
\<close>

theorem check_longest_symbol_exported_result:
  "fst (check_longest_symbol_exported k) =
     (if 0 \<le> register_result k (register_calls k) \<and>
         fst (kallsyms_lookup_name (symbol_address k ''kallsyms_lookup_name'') LONGEST_SYMBOL k) \<noteq> 0
      then 0 else 1)
   \<and> dmesg (snd (check_longest_symbol_exported k)) =
       dmesg k @
       [if register_result k (register_calls k) < 0 then ''test_longest_symbol: kprobe not registered''
        else if symbol_address k LONGEST_SYMBOL \<noteq> 0
          then ''test_longest_symbol: symbol found: '' @ LONGEST_SYMBOL
          else ''test_longest_symbol: longest_symbol not found'']
   \<and> lookups (snd (check_longest_symbol_exported k)) =
       (if register_result k (register_calls k) < 0 then lookups k else lookups k @ [LONGEST_SYMBOL])
   \<and> total_tests (fst (selftest True g k)) = total_tests g + 1
   \<and> failed_tests (fst (selftest True g k)) =
       (if fst (check_longest_symbol_exported (pr_info ''test_longest_symbol loaded'' k)) = 0
        then failed_tests g else failed_tests g + 1)
   \<and> fst (check_longest_symbol_exported (pr_info ''test_longest_symbol loaded'' k)) =
       fst (check_longest_symbol_exported k)"
  by (simp add: check_longest_symbol_exported_def register_kprobe_def unregister_kprobe_def
      kallsyms_lookup_name_def stringify_LONGEST_SYMBOL pr_info_def symbol_address_def
      selftest_def KSTM_CHECK_ZERO_def Let_def split: prod.splits)

text \<open>
  The selftest on four kernels: with the symbol exported, with the symbol missing, without
  kprobes, and built without \<^verbatim>\<open>CONFIG_KPROBES\<close>.
\<close>

lemma selftest_examples:
  "selftest True kstm_init kernel_selftest =
     (\<lparr>total_tests = 1, failed_tests = 0\<rparr>,
      kernel_selftest\<lparr>register_calls := 1, lookups := [LONGEST_SYMBOL],
        dmesg := [''test_longest_symbol loaded'',
                  ''test_longest_symbol: symbol found: '' @ LONGEST_SYMBOL]\<rparr>)"
  "fst (selftest True kstm_init kernel_unresolved) = \<lparr>total_tests = 1, failed_tests = 1\<rparr>"
  "fst (selftest True kstm_init kernel_no_kprobes) = \<lparr>total_tests = 1, failed_tests = 1\<rparr>"
  "fst (selftest False kstm_init kernel_selftest) = kstm_init"
  by (simp_all add: selftest_def check_longest_symbol_exported_def register_kprobe_def
      unregister_kprobe_def kallsyms_lookup_name_def stringify_LONGEST_SYMBOL pr_info_def
      symbol_address_def KSTM_CHECK_ZERO_def kstm_init_def kernel_selftest_def kernel_unresolved_def
      kernel_no_kprobes_def boot_def LONGEST_SYMBOL_neq Let_def)

end
